theory Spec2Isabelle
  imports Complex_Main
begin

section \<open>Data model of \<open>src/blockchain.js\<close>\<close>

text \<open>
  The payload handed to the Block constructor is an object \<open>{data: d}\<close>, where \<open>d\<close> is
  either a string (\<open>'Genesis Block'\<close>) or an object \<open>{"star": star, "owner": address}\<close>.
  The star itself is opaque to the chain and is kept as a string.
\<close>

datatype bdata = DataString string | DataStar string string

text \<open>\<open>d.owner\<close>: a string has no such property (\<open>undefined\<close>, here \<open>None\<close>).\<close>

fun owner_of :: "bdata \<Rightarrow> string option" where
  "owner_of (DataString s) = None"
| "owner_of (DataStar star ownr) = Some ownr"

text \<open>
  A block object. \<open>null\<close> and unset fields are \<open>None\<close>. The field \<open>body\<close> holds the
  payload; its hex/JSON encoding belongs to the Block class and is not modelled, so a
  block's body is kept in decoded form.
\<close>

record block =
  hash :: "string option"
  height :: int
  body :: bdata
  time :: "string option"
  previousBlockHash :: "string option"

text \<open>
  Modelled from the spec: the constructor of the Block class (\<open>block.js\<close> is not among
  the sources). A block is constructed with its payload only; the linkage fields are unset
  and the position is 0, the position of the genesis block, which the append path never
  assigns.
\<close>

definition Block :: "bdata \<Rightarrow> block" where
  "Block d = \<lparr>hash = None, height = 0, body = d, time = None, previousBlockHash = None\<rparr>"

text \<open>
  The Blockchain object: \<open>this.chain\<close> and \<open>this.height\<close>. The latter is named
  \<open>chain_height\<close> here, \<open>height\<close> being the field of a block.
\<close>

record blockchain =
  chain :: "block list"
  chain_height :: int

text \<open>
  The outcome of a returned Promise. \<open>Pending\<close> is a promise that never settles: an
  exception thrown inside an \<open>async\<close> executor rejects only the executor's own promise,
  so neither \<open>resolve\<close> nor \<open>reject\<close> of the returned promise is ever called.
\<close>

datatype 'a promise = Resolved 'a | Rejected string | Pending

section \<open>JavaScript primitives used by the source\<close>

text \<open>\<open>xs[i]\<close> for a number \<open>i\<close>: \<open>undefined\<close> (here \<open>None\<close>) out of range.\<close>

definition js_index :: "'a list \<Rightarrow> int \<Rightarrow> 'a option" where
  "js_index xs i = (if 0 \<le> i \<and> nat i < length xs then Some (xs ! nat i) else None)"

text \<open>
  \<open>n.toString()\<close> for a non-negative integer below \<open>10^21\<close> (every value of
  \<open>Date.getTime()\<close> is): its decimal digits.
\<close>

definition digit_char :: "nat \<Rightarrow> char" where
  "digit_char d = ''0123456789'' ! d"

function toString :: "nat \<Rightarrow> string" where
  "toString n = (if n < 10 then [digit_char n] else toString (n div 10) @ [digit_char (n mod 10)])"
  by pat_completeness auto
termination
  by (relation "measure id") auto

declare toString.simps [simp del]

text \<open>\<open>s.slice(0, -3)\<close>: all but the last three characters (empty when there are fewer).\<close>

definition slice_0_m3 :: "string \<Rightarrow> string" where
  "slice_0_m3 s = take (length s - 3) s"

text \<open>\<open>new Date().getTime().toString().slice(0, -3)\<close>, the clock reading \<open>now\<close> in milliseconds.\<close>

definition time_string :: "nat \<Rightarrow> string" where
  "time_string now = slice_0_m3 (toString now)"

text \<open>\<open>s.split(':')\<close>.\<close>

fun split_colon :: "string \<Rightarrow> string list" where
  "split_colon [] = [[]]"
| "split_colon (c # cs) =
     (if c = CHR '':'' then [] # split_colon cs
      else (case split_colon cs of
              [] \<Rightarrow> [[c]]
            | f # fs \<Rightarrow> (c # f) # fs))"

text \<open>
  A string is a sequence of code units below 256, \<open>CHR n\<close> being the code unit \<open>n\<close>.
  The white space that \<open>parseInt\<close> strips (\<open>StrWhiteSpaceChar\<close>) is, among these code
  units, TAB, LF, VT, FF, CR, the space and the no-break space \<open>U+00A0\<close>; every other
  white space or line terminator character (\<open>U+1680\<close>, \<open>U+2000\<close> to \<open>U+200A\<close>,
  \<open>U+2028\<close>, \<open>U+2029\<close>, \<open>U+202F\<close>, \<open>U+205F\<close>, \<open>U+3000\<close>, \<open>U+FEFF\<close>) has a code
  unit above 255.
\<close>

definition is_ws :: "char \<Rightarrow> bool" where
  "is_ws c = (c = CHR '' '' \<or> c = CHR 0x09 \<or> c = CHR 0x0A \<or> c = CHR 0x0B
              \<or> c = CHR 0x0C \<or> c = CHR 0x0D \<or> c = CHR 0xA0)"

text \<open>
  \<open>parseInt(s)\<close> with no radix: leading white space is skipped, a sign is read, a prefix
  \<open>0x\<close> or \<open>0X\<close> selects radix 16, and the longest prefix of digits is converted.
  \<open>NaN\<close> (no digit) is \<open>None\<close>.
\<close>

definition digit_val :: "char \<Rightarrow> nat option" where
  "digit_val c =
     map_of [(CHR ''0'', 0), (CHR ''1'', 1), (CHR ''2'', 2), (CHR ''3'', 3), (CHR ''4'', 4),
             (CHR ''5'', 5), (CHR ''6'', 6), (CHR ''7'', 7), (CHR ''8'', 8), (CHR ''9'', 9),
             (CHR ''a'', 10), (CHR ''b'', 11), (CHR ''c'', 12), (CHR ''d'', 13), (CHR ''e'', 14),
             (CHR ''f'', 15), (CHR ''A'', 10), (CHR ''B'', 11), (CHR ''C'', 12), (CHR ''D'', 13),
             (CHR ''E'', 14), (CHR ''F'', 15)] c"

definition is_digit :: "nat \<Rightarrow> char \<Rightarrow> bool" where
  "is_digit r c = (case digit_val c of None \<Rightarrow> False | Some d \<Rightarrow> d < r)"

definition digits_value :: "nat \<Rightarrow> string \<Rightarrow> nat" where
  "digits_value r z = foldl (\<lambda>a c. a * r + (case digit_val c of None \<Rightarrow> 0 | Some d \<Rightarrow> d)) 0 z"

definition parseInt :: "string \<Rightarrow> int option" where
  "parseInt inp =
     (let s = dropWhile is_ws inp;
          sgn = (if take 1 s = ''-'' then - 1 else (1 :: int));
          s1 = (if take 1 s = ''+'' \<or> take 1 s = ''-'' then drop 1 s else s);
          hex = (take 2 s1 = ''0x'' \<or> take 2 s1 = ''0X'');
          r = (if hex then 16 else 10);
          s2 = (if hex then drop 2 s1 else s1);
          z = takeWhile (is_digit r) s2
      in if z = [] then None else Some (sgn * int (digits_value r z)))"

text \<open>\<open>parseInt(x)\<close> of a possibly \<open>undefined\<close> value: \<open>undefined\<close> is first converted to a string.\<close>

definition parseInt_val :: "string option \<Rightarrow> int option" where
  "parseInt_val v = parseInt (case v of None \<Rightarrow> ''undefined'' | Some s \<Rightarrow> s)"

text \<open>An object is truthy.\<close>

definition truthy_object :: "'a \<Rightarrow> bool" where
  "truthy_object x = True"

section \<open>Appending\<close>

text \<open>
  \<open>_addBlock(block)\<close>, here \<open>addBlock\<close>. \<open>H\<close> is the capability \<open>SHA256(JSON.stringify(block)).toString()\<close>,
  applied to the block as it is at that moment; \<open>now\<close> is the clock reading in
  milliseconds. The result is the promise's outcome and the Blockchain object afterwards.
  \<open>block.height =+ 1\<close> and \<open>self.height =+ 1\<close> assign the value \<open>+1\<close>. Reading \<open>.hash\<close> of
  \<open>self.chain[self.height - 1]\<close> throws when that element is \<open>undefined\<close>, before anything
  is pushed.
\<close>

definition addBlock ::
  "(block \<Rightarrow> string) \<Rightarrow> nat \<Rightarrow> blockchain \<Rightarrow> block \<Rightarrow> block promise \<times> blockchain" where
  "addBlock H now self blk =
     (let b1 = blk\<lparr>time := Some (time_string now)\<rparr>;
          linked =
            (if chain_height self > - 1
             then (case js_index (chain self) (chain_height self - 1) of
                     None \<Rightarrow> None
                   | Some prev \<Rightarrow> Some (b1\<lparr>previousBlockHash := hash prev, height := 1\<rparr>))
             else Some b1)
      in case linked of
           None \<Rightarrow> (Pending, self)
         | Some b2 \<Rightarrow>
             (let b3 = b2\<lparr>hash := Some (H b2)\<rparr>;
                  self' = self\<lparr>chain := chain self @ [b3], chain_height := 1\<rparr>
              in if truthy_object b3 then (Resolved b3, self')
                 else (Rejected ''Error occured during execution: Adding Block to the Chain Failed!'', self')))"

text \<open>\<open>initializeChain()\<close>: creates the genesis block when the height is \<open>-1\<close>.\<close>

definition initializeChain :: "(block \<Rightarrow> string) \<Rightarrow> nat \<Rightarrow> blockchain \<Rightarrow> blockchain" where
  "initializeChain H now self =
     (if chain_height self = - 1
      then snd (addBlock H now self (Block (DataString ''Genesis Block'')))
      else self)"

text \<open>The constructor: an empty chain of height \<open>-1\<close>, then \<open>initializeChain()\<close>.\<close>

definition empty_chain :: blockchain where
  "empty_chain = \<lparr>chain = [], chain_height = - 1\<rparr>"

definition constructor :: "(block \<Rightarrow> string) \<Rightarrow> nat \<Rightarrow> blockchain" where
  "constructor H now = initializeChain H now empty_chain"

text \<open>\<open>getChainHeight()\<close>.\<close>

definition getChainHeight :: "blockchain \<Rightarrow> int promise" where
  "getChainHeight self = Resolved (chain_height self)"

section \<open>Ownership challenge and submission\<close>

text \<open>
  \<open>requestMessageOwnershipVerification(address)\<close> resolves with
  \<open>`${address}:${new Date().getTime().toString().slice(0,-3)}:starRegistry`\<close>. It reads
  the clock and assigns nothing; the Blockchain object is returned as it was.
\<close>

definition requestMessageOwnershipVerification ::
  "nat \<Rightarrow> blockchain \<Rightarrow> string \<Rightarrow> string promise \<times> blockchain" where
  "requestMessageOwnershipVerification now self address =
     (Resolved (address @ '':'' @ time_string now @ '':starRegistry''), self)"

text \<open>
  The first lines of \<open>submitStar\<close>: \<open>time = parseInt(message.split(':')[1])\<close>,
  \<open>current_time = parseInt(new Date().getTime().toString().slice(0, -3))\<close> and
  \<open>time_elapsed = (current_time - time) / 60\<close>. \<open>NaN\<close> is \<open>None\<close>. Numbers are exact
  here; the doubles of the source agree with them below \<open>2^53\<close>.
\<close>

definition time_elapsed :: "nat \<Rightarrow> string \<Rightarrow> real option" where
  "time_elapsed now message =
     (let tm = parseInt_val (js_index (split_colon message) 1);
          current_time = parseInt (time_string now)
      in case (current_time, tm) of
           (Some c, Some t) \<Rightarrow> Some (real_of_int (c - t) / 60)
         | _ \<Rightarrow> None)"

text \<open>\<open>time_elapsed < 5\<close>: a comparison with \<open>NaN\<close> is false.\<close>

definition less_than_5 :: "real option \<Rightarrow> bool" where
  "less_than_5 e = (case e of None \<Rightarrow> False | Some x \<Rightarrow> x < 5)"

text \<open>
  \<open>submitStar(address, message, signature, star)\<close>. \<open>verify\<close> is the capability
  \<open>bitcoinMessage.verify\<close>: it returns a boolean (\<open>Some\<close>) or throws (\<open>None\<close>), as it
  does on a malformed signature or address. It is called before the test of the window
  and outside any \<open>try\<close>, so when it throws, inside the \<open>async\<close> executor, the returned
  promise never settles, whatever the elapsed time. \<open>now\<close> is the clock read by
  \<open>submitStar\<close> and \<open>now'\<close> the one read by \<open>_addBlock\<close>.
  \<open>await this._addBlock(block)\<close> throws inside the \<open>async\<close> executor when that promise
  rejects, and never returns when it stays pending: in both cases the returned promise
  stays pending.
\<close>

definition submitStar ::
  "(block \<Rightarrow> string) \<Rightarrow> (string \<Rightarrow> string \<Rightarrow> string \<Rightarrow> bool option) \<Rightarrow> nat \<Rightarrow> nat \<Rightarrow>
     blockchain \<Rightarrow> string \<Rightarrow> string \<Rightarrow> string \<Rightarrow> string \<Rightarrow> block promise \<times> blockchain" where
  "submitStar H verify now now' self address message signature star =
     (let elapsed = time_elapsed now message
      in case verify message address signature of
           None \<Rightarrow> (Pending, self)
         | Some verified \<Rightarrow>
             if less_than_5 elapsed \<and> verified
             then (let blk = Block (DataStar star address)
                   in case addBlock H now' self blk of
                        (Resolved b, self') \<Rightarrow> (Resolved b, self')
                      | (Rejected e, self') \<Rightarrow> (Pending, self')
                      | (Pending, self') \<Rightarrow> (Pending, self'))
             else (Rejected ''Error submitting star! Elapsed time must be less than 5 minutes'',
                   self))"

section \<open>Lookups\<close>

text \<open>\<open>getBlockByHash(hash)\<close>: \<open>self.chain.filter(block => block.hash === hash)[0]\<close>.\<close>

definition getBlockByHash :: "blockchain \<Rightarrow> string \<Rightarrow> block promise" where
  "getBlockByHash self h =
     (case js_index (filter (\<lambda>b. hash b = Some h) (chain self)) 0 of
        Some result \<Rightarrow> Resolved result
      | None \<Rightarrow> Rejected ''Block not found!'')"

text \<open>\<open>getBlockByHeight(height)\<close> resolves with \<open>null\<close> (here \<open>None\<close>) when no block matches.\<close>

definition getBlockByHeight :: "blockchain \<Rightarrow> int \<Rightarrow> block option promise" where
  "getBlockByHeight self h = Resolved (js_index (filter (\<lambda>p. height p = h) (chain self)) 0)"

text \<open>
  Modelled from the spec: \<open>getBData()\<close> of the Block class (\<open>block.js\<close> is not among the
  sources), the capability that decodes a block's payload. The body is kept decoded, so
  the decoded block is the block.
\<close>

definition getBData :: "block \<Rightarrow> block" where
  "getBData b = b"

text \<open>
  \<open>getStarsByWalletAddress(address)\<close>: the \<open>forEach\<close> over the chain, with the array
  \<open>stars\<close> as accumulator. The callbacks registered with \<open>then\<close> on the already resolved
  promises run before any reader of the returned promise does, so the reader sees the
  array as it is after all of them.
\<close>

fun stars_loop :: "string \<Rightarrow> block list \<Rightarrow> block list \<Rightarrow> block list" where
  "stars_loop address [] stars = stars"
| "stars_loop address (b # bs) stars =
     stars_loop address bs
       (if height b > 0
        then (let resolved_block = getBData b
              in if owner_of (body resolved_block) = Some address
                 then stars @ [resolved_block] else stars)
        else stars)"

definition getStarsByWalletAddress :: "blockchain \<Rightarrow> string \<Rightarrow> block list promise" where
  "getStarsByWalletAddress self address =
     (let stars = stars_loop address (chain self) []
      in if truthy_object stars then Resolved stars
         else Rejected ''No stars found for the given address!'')"

section \<open>Validation\<close>

text \<open>
  An entry of \<open>errorLog\<close>: the block itself (pushed when its link to the previous block is
  broken), or the hash-mismatch violation that \<open>validate()\<close> returns.
\<close>

datatype log_entry = BlockRef block | HashMismatch block

text \<open>
  Modelled from the spec: the content hash of a block, recomputed from its current
  fields other than the stored hash (the capability \<open>computeContentHash\<close>).
\<close>

definition computeContentHash :: "(block \<Rightarrow> string) \<Rightarrow> block \<Rightarrow> string" where
  "computeContentHash H b = H (b\<lparr>hash := None\<rparr>)"

text \<open>
  Modelled from the spec: \<open>validate()\<close> of the Block class (\<open>block.js\<close> is not among the
  sources). It recomputes the content hash; the result is the block itself when it equals
  the stored hash, and a hash-mismatch violation referencing the block otherwise.
\<close>

definition validate :: "(block \<Rightarrow> string) \<Rightarrow> block \<Rightarrow> log_entry" where
  "validate H b = (if hash b = Some (computeContentHash H b) then BlockRef b else HashMismatch b)"

text \<open>
  \<open>validateChain()\<close>: the \<open>forEach\<close> over the chain with the variables \<open>previous_hash\<close>
  and \<open>errorLog\<close>; an array is truthy, so the promise resolves with the log.
\<close>

fun validate_loop ::
  "(block \<Rightarrow> string) \<Rightarrow> block list \<Rightarrow> string option \<Rightarrow> log_entry list \<Rightarrow> log_entry list" where
  "validate_loop H [] previous_hash errorLog = errorLog"
| "validate_loop H (b # bs) previous_hash errorLog =
     (let result = validate H b;
          log1 = (if result \<noteq> BlockRef b then errorLog @ [result] else errorLog);
          log2 = (if previous_hash \<noteq> previousBlockHash b then log1 @ [BlockRef b] else log1)
      in validate_loop H bs (hash b) log2)"

definition validateChain :: "(block \<Rightarrow> string) \<Rightarrow> blockchain \<Rightarrow> log_entry list promise" where
  "validateChain H self =
     (let errorLog = validate_loop H (chain self) None []
      in if truthy_object errorLog then Resolved errorLog else Rejected ''Valid Chain'')"

section \<open>States of a Blockchain object\<close>

text \<open>
  The states in which \<open>_addBlock\<close> is called: the empty chain the constructor starts
  from, and every state a call of \<open>_addBlock\<close> leaves behind.
\<close>

inductive reachable :: "(block \<Rightarrow> string) \<Rightarrow> blockchain \<Rightarrow> bool" for H :: "block \<Rightarrow> string" where
  reachable_empty: "reachable H empty_chain"
| reachable_addBlock: "reachable H self \<Longrightarrow> reachable H (snd (addBlock H now self blk))"

text \<open>
  A concrete stand-in for the hashing capability, for evaluating the operations on
  concrete chains: it writes the fields of the block out, so that blocks that differ get
  different values, as with a collision-free hash.
\<close>

definition show_opt :: "string option \<Rightarrow> string" where
  "show_opt v = (case v of None \<Rightarrow> ''null'' | Some s \<Rightarrow> s)"

fun show_bdata :: "bdata \<Rightarrow> string" where
  "show_bdata (DataString s) = s"
| "show_bdata (DataStar star ownr) = star @ '','' @ ownr"

definition digest :: "block \<Rightarrow> string" where
  "digest b = show_opt (hash b) @ '';'' @ toString (nat (height b)) @ '';'' @ show_bdata (body b)
     @ '';'' @ show_opt (time b) @ '';'' @ show_opt (previousBlockHash b)"

text \<open>
  Stand-ins for the signature capability: one that returns \<open>true\<close>, one that returns
  \<open>false\<close>, and one that throws.
\<close>

definition verify_accept :: "string \<Rightarrow> string \<Rightarrow> string \<Rightarrow> bool option" where
  "verify_accept message address signature = Some True"

definition verify_refuse :: "string \<Rightarrow> string \<Rightarrow> string \<Rightarrow> bool option" where
  "verify_refuse message address signature = Some False"

definition verify_throw :: "string \<Rightarrow> string \<Rightarrow> string \<Rightarrow> bool option" where
  "verify_throw message address signature = None"

text \<open>
  Concrete chains: a new Blockchain, and the chains after one, two and three stars
  (owners A, B, A) have been appended to it.
\<close>

definition chain0 :: blockchain where
  "chain0 = constructor digest 1700000000000"

definition chain1 :: blockchain where
  "chain1 = snd (addBlock digest 1700000010000 chain0 (Block (DataStar ''s1'' ''A'')))"

definition chain2 :: blockchain where
  "chain2 = snd (addBlock digest 1700000020000 chain1 (Block (DataStar ''s2'' ''B'')))"

definition chain3 :: blockchain where
  "chain3 = snd (addBlock digest 1700000030000 chain2 (Block (DataStar ''s3'' ''A'')))"

text \<open>The blocks of these chains.\<close>

definition block0 :: block where
  "block0 = \<lparr>hash = Some ''null;0;Genesis Block;1700000000;null'', height = 0,
     body = DataString ''Genesis Block'', time = Some ''1700000000'',
     previousBlockHash = None\<rparr>"

definition block1 :: block where
  "block1 = \<lparr>hash = Some ''null;1;s1,A;1700000010;null;0;Genesis Block;1700000000;null'',
     height = 1, body = DataStar ''s1'' ''A'', time = Some ''1700000010'',
     previousBlockHash = Some ''null;0;Genesis Block;1700000000;null''\<rparr>"

definition block2 :: block where
  "block2 = \<lparr>hash = Some ''null;1;s2,B;1700000020;null;0;Genesis Block;1700000000;null'',
     height = 1, body = DataStar ''s2'' ''B'', time = Some ''1700000020'',
     previousBlockHash = Some ''null;0;Genesis Block;1700000000;null''\<rparr>"

definition block3 :: block where
  "block3 = \<lparr>hash = Some ''null;1;s3,A;1700000030;null;0;Genesis Block;1700000000;null'',
     height = 1, body = DataStar ''s3'' ''A'', time = Some ''1700000030'',
     previousBlockHash = Some ''null;0;Genesis Block;1700000000;null''\<rparr>"

text \<open>The chain after one append, with the payload of its star block overwritten.\<close>

definition tampered_block :: block where
  "tampered_block = block1\<lparr>body := DataStar ''s1'' ''Mallory''\<rparr>"

definition tampered_chain :: blockchain where
  "tampered_chain = chain1\<lparr>chain := (chain chain1)[1 := tampered_block]\<rparr>"

section \<open>Evaluation lemmas\<close>

lemma toString_numeral [simp]:
  "toString (numeral k) =
     (if (numeral k :: nat) < 10 then [digit_char (numeral k)]
      else toString (numeral k div 10) @ [digit_char (numeral k mod 10)])"
  by (rule toString.simps)

lemma toString_0 [simp]: "toString 0 = ''0''"
  by (simp add: toString.simps digit_char_def)

lemma toString_Suc_0 [simp]: "toString (Suc 0) = ''1''"
  by (simp add: toString.simps digit_char_def)

lemmas time_eval = time_string_def slice_0_m3_def digit_char_def

lemmas parse_eval = time_elapsed_def js_index_def parseInt_val_def parseInt_def is_ws_def
  is_digit_def digit_val_def digits_value_def Let_def

lemmas digest_eval = digest_def show_opt_def

lemma constructor_eq:
  "constructor H now =
     \<lparr>chain = [\<lparr>hash = Some (H \<lparr>hash = None, height = 0, body = DataString ''Genesis Block'',
                                   time = Some (time_string now), previousBlockHash = None\<rparr>),
                height = 0, body = DataString ''Genesis Block'',
                time = Some (time_string now), previousBlockHash = None\<rparr>],
      chain_height = 1\<rparr>"
  by (simp add: constructor_def initializeChain_def empty_chain_def addBlock_def Block_def
      truthy_object_def Let_def)

lemma addBlock_linked:
  "chain_height self = 1 \<Longrightarrow> chain self \<noteq> [] \<Longrightarrow>
   addBlock H now self blk =
     (let b2 = blk\<lparr>time := Some (time_string now), previousBlockHash := hash (chain self ! 0),
                   height := 1\<rparr>;
          b3 = b2\<lparr>hash := Some (H b2)\<rparr>
      in (Resolved b3, self\<lparr>chain := chain self @ [b3], chain_height := 1\<rparr>))"
  by (cases "chain self") (simp_all add: addBlock_def js_index_def truthy_object_def Let_def)

lemma chain0_eq: "chain0 = \<lparr>chain = [block0], chain_height = 1\<rparr>"
  by (simp add: chain0_def constructor_eq block0_def digest_eval time_eval)

lemma chain1_eq: "chain1 = \<lparr>chain = [block0, block1], chain_height = 1\<rparr>"
  by (simp add: chain1_def chain0_eq addBlock_linked Let_def Block_def block0_def block1_def
      digest_eval time_eval)

lemma chain2_eq: "chain2 = \<lparr>chain = [block0, block1, block2], chain_height = 1\<rparr>"
  by (simp add: chain2_def chain1_eq addBlock_linked Let_def Block_def block0_def block2_def
      digest_eval time_eval)

lemma chain3_eq: "chain3 = \<lparr>chain = [block0, block1, block2, block3], chain_height = 1\<rparr>"
  by (simp add: chain3_def chain2_eq addBlock_linked Let_def Block_def block0_def block3_def
      digest_eval time_eval)

lemma validate_block0: "validate digest block0 = BlockRef block0"
  by (simp add: validate_def computeContentHash_def block0_def digest_eval)

lemma validate_block1: "validate digest block1 = BlockRef block1"
  by (simp add: validate_def computeContentHash_def block1_def digest_eval)

lemma validate_block2: "validate digest block2 = BlockRef block2"
  by (simp add: validate_def computeContentHash_def block2_def digest_eval)

lemma elapsed_300: "time_elapsed 1700000300000 ''A:1700000000:starRegistry'' = Some 5"
  by (simp add: parse_eval time_eval)

lemma elapsed_299: "time_elapsed 1700000299999 ''A:1700000000:starRegistry'' = Some (299 / 60)"
  by (simp add: parse_eval time_eval)

lemma elapsed_1: "time_elapsed 1700000001000 ''A:1700000000:starRegistry'' = Some (1 / 60)"
  by (simp add: parse_eval time_eval)

lemma parseInt_no_break_space: "parseInt (CHR 0xA0 # ''1700000000'') = Some 1700000000"
  by (simp add: parse_eval)

section \<open>Properties of the operations\<close>

subsection \<open>The clock string\<close>

lemma toString_ge_10: "10 \<le> n \<Longrightarrow> toString n = toString (n div 10) @ [digit_char (n mod 10)]"
  by (subst toString.simps) simp

lemma toString_thousands:
  assumes "1000 \<le> n"
  shows "toString n = toString (n div 1000)
           @ [digit_char (n div 100 mod 10), digit_char (n div 10 mod 10), digit_char (n mod 10)]"
proof -
  have a: "toString n = toString (n div 10) @ [digit_char (n mod 10)]"
    using assms by (simp add: toString_ge_10)
  have b: "toString (n div 10) = toString (n div 100) @ [digit_char (n div 10 mod 10)]"
    using assms toString_ge_10 [of "n div 10"] by (simp add: div_mult2_eq [symmetric])
  have c: "toString (n div 100) = toString (n div 1000) @ [digit_char (n div 100 mod 10)]"
    using assms toString_ge_10 [of "n div 100"] by (simp add: div_mult2_eq [symmetric])
  show ?thesis by (simp add: a b c)
qed

lemma time_string_seconds: "1000 \<le> now \<Longrightarrow> time_string now = toString (now div 1000)"
  by (simp add: time_string_def slice_0_m3_def toString_thousands)

subsection \<open>Reachable states and appending\<close>

lemma reachable_shape:
  "reachable H self \<Longrightarrow>
     (chain_height self = - 1 \<and> chain self = []) \<or> (chain_height self = 1 \<and> chain self \<noteq> [])"
proof (induction rule: reachable.induct)
  case reachable_empty
  then show ?case by (simp add: empty_chain_def)
next
  case (reachable_addBlock self now blk)
  then show ?case
    by (auto simp: addBlock_def js_index_def truthy_object_def Let_def split: option.splits)
qed

lemma addBlock_reachable:
  assumes "reachable H self"
  shows "\<exists>b. addBlock H now self blk
                = (Resolved b, self\<lparr>chain := chain self @ [b], chain_height := 1\<rparr>)
            \<and> body b = body blk \<and> hash b = Some (H (b\<lparr>hash := hash blk\<rparr>))"
  using reachable_shape [OF assms]
  by (cases "chain self") (auto simp: addBlock_def js_index_def truthy_object_def Let_def)

lemma addBlock_resolved_time:
  "addBlock H now self blk = (Resolved b, self') \<Longrightarrow> time b = Some (time_string now)"
  by (auto simp: addBlock_def truthy_object_def Let_def split: option.splits if_splits)

lemma submitStar_verify_throws:
  "verify message address signature = None \<Longrightarrow>
     submitStar H verify now now' self address message signature star = (Pending, self)"
  by (simp add: submitStar_def Let_def)

lemma submitStar_verify_throws_expired:
  "submitStar digest verify_throw 1700000300000 1700000300000 chain0
     ''A'' ''A:1700000000:starRegistry'' ''sig'' ''s1'' = (Pending, chain0)"
  by (simp add: submitStar_verify_throws verify_throw_def)

lemma reachable_constructor: "reachable H (constructor H now)"
  unfolding constructor_def initializeChain_def
  by (simp add: empty_chain_def [symmetric] reachable.intros)

lemma reachable_chain0: "reachable digest chain0"
  unfolding chain0_def by (rule reachable_constructor)

lemma reachable_chain1: "reachable digest chain1"
  unfolding chain1_def by (rule reachable_addBlock [OF reachable_chain0])

subsection \<open>Loops\<close>

lemma stars_loop_filter:
  "stars_loop address bs stars =
     stars @ filter (\<lambda>r. owner_of (body r) = Some address)
               (map getBData (filter (\<lambda>b. height b > 0) bs))"
  by (induction bs arbitrary: stars) (simp_all add: Let_def)

lemma filter_first:
  "i < length xs \<Longrightarrow> P (xs ! i) \<Longrightarrow> \<forall>j<i. \<not> P (xs ! j) \<Longrightarrow>
     filter P xs = xs ! i # filter P (drop (Suc i) xs)"
proof (induction xs arbitrary: i)
  case Nil
  then show ?case by simp
next
  case (Cons x xs)
  show ?case
  proof (cases i)
    case 0
    with Cons.prems show ?thesis by simp
  next
    case (Suc k)
    from Cons.prems Suc have nx: "\<not> P x" by auto
    from Cons.prems Suc have "k < length xs" "P (xs ! k)" "\<forall>j<k. \<not> P (xs ! j)" by auto
    from Cons.IH [OF this] nx Suc show ?thesis by simp
  qed
qed

lemma validate_loop_mono: "set errorLog \<subseteq> set (validate_loop H bs p errorLog)"
proof (induction bs arbitrary: p errorLog)
  case Nil
  then show ?case by simp
next
  case (Cons b bs)
  let ?log1 = "if validate H b \<noteq> BlockRef b then errorLog @ [validate H b] else errorLog"
  let ?log2 = "if p \<noteq> previousBlockHash b then ?log1 @ [BlockRef b] else ?log1"
  have "set errorLog \<subseteq> set ?log1" by auto
  also have "\<dots> \<subseteq> set ?log2" by auto
  also have "\<dots> \<subseteq> set (validate_loop H (b # bs) p errorLog)"
    using Cons.IH by (simp add: Let_def)
  finally show ?case .
qed

lemma validate_loop_mismatch:
  "b \<in> set bs \<Longrightarrow> hash b \<noteq> Some (computeContentHash H b) \<Longrightarrow>
     HashMismatch b \<in> set (validate_loop H bs p errorLog)"
proof (induction bs arbitrary: p errorLog)
  case Nil
  then show ?case by simp
next
  case (Cons x bs)
  show ?case
  proof (cases "b = x")
    case True
    let ?l1 = "errorLog @ [HashMismatch b]"
    let ?l2 = "if p \<noteq> previousBlockHash b then ?l1 @ [BlockRef b] else ?l1"
    have "HashMismatch b \<in> set ?l2" by simp
    moreover have "set ?l2 \<subseteq> set (validate_loop H bs (hash b) ?l2)"
      by (rule validate_loop_mono)
    moreover have "validate_loop H (x # bs) p errorLog = validate_loop H bs (hash b) ?l2"
      using True Cons.prems by (simp add: validate_def Let_def)
    ultimately show ?thesis by auto
  next
    case False
    with Cons.prems have "b \<in> set bs" by simp
    from Cons.IH [OF this Cons.prems(2)] show ?thesis by (simp add: Let_def)
  qed
qed

section \<open>The claims\<close>

text \<open>
  C1. Claim: after N successful appends to a fresh chain the positions are exactly
  \<open>0..N-1\<close>, the stored height is \<open>N-1\<close>, and each append assigns position
  \<open>old_height + 1\<close> and raises the stored height by one. The code does otherwise: for
  any hashing capability, clock readings and blocks, a new Blockchain followed by two
  appends holds blocks with positions 0, 1, 1, and the stored height is 1 after the
  constructor and stays 1 after each append (\<open>=+ 1\<close> assigns 1).
\<close>

theorem append_positions_repeat:
  "map height (chain (snd (addBlock H n2 (snd (addBlock H n1 (constructor H n0) b1)) b2)))
     = [0, 1, 1]
   \<and> chain_height empty_chain = - 1
   \<and> chain_height (constructor H n0) = 1
   \<and> chain_height (snd (addBlock H n1 (constructor H n0) b1)) = 1
   \<and> chain_height (snd (addBlock H n2 (snd (addBlock H n1 (constructor H n0) b1)) b2)) = 1"
  by (simp add: constructor_eq addBlock_linked Let_def empty_chain_def)

text \<open>
  C2. Claim: every block after the first has as previous hash the content hash of the
  block just before it, the last block at the moment of its append. The code does
  otherwise: in the chain after two appends, the third block's previous hash is the hash
  of the genesis block and not the hash of the second block.
\<close>

theorem link_to_genesis_not_predecessor:
  "previousBlockHash (chain chain2 ! 2) = hash (chain chain2 ! 0)
   \<and> previousBlockHash (chain chain2 ! 2) \<noteq> hash (chain chain2 ! 1)
   \<and> hash (chain chain2 ! 1) = Some (computeContentHash digest (chain chain2 ! 1))"
  by (simp add: chain2_eq block0_def block1_def block2_def computeContentHash_def digest_eval)

text \<open>
  C3. Claim: a freshly initialized chain has stored height 0 and exactly one block, whose
  previous hash is unset and whose payload is the genesis marker. In the code the chain
  has one such block, at position 0, but the stored height is 1.
\<close>

theorem fresh_chain_height_is_1:
  "chain_height (constructor H now) = 1
   \<and> length (chain (constructor H now)) = 1
   \<and> previousBlockHash (chain (constructor H now) ! 0) = None
   \<and> body (chain (constructor H now) ! 0) = DataString ''Genesis Block''
   \<and> height (chain (constructor H now) ! 0) = 0"
  by (simp add: constructor_eq)

text \<open>
  C4. Tamper detection: whenever a block of the chain has a stored hash that differs from
  its recomputed content hash, \<open>validateChain\<close> resolves with a log that contains the
  hash-mismatch violation referencing that block.
\<close>

theorem validateChain_detects_tamper:
  "b \<in> set (chain self) \<Longrightarrow> hash b \<noteq> Some (computeContentHash H b) \<Longrightarrow>
     \<exists>errorLog. validateChain H self = Resolved errorLog \<and> HashMismatch b \<in> set errorLog"
  by (simp add: validateChain_def truthy_object_def validate_loop_mismatch)

text \<open>
  Witness for C4: the chain after one append, with the owner of its star overwritten.
\<close>

theorem validateChain_detects_tamper_witness:
  "tampered_block \<in> set (chain tampered_chain)
   \<and> hash tampered_block \<noteq> Some (computeContentHash digest tampered_block)
   \<and> (\<exists>errorLog. validateChain digest tampered_chain = Resolved errorLog
         \<and> HashMismatch tampered_block \<in> set errorLog)"
proof -
  have m: "tampered_block \<in> set (chain tampered_chain)"
    by (simp add: tampered_chain_def chain1_eq)
  have d: "hash tampered_block \<noteq> Some (computeContentHash digest tampered_block)"
    by (simp add: tampered_block_def block1_def computeContentHash_def digest_eval)
  from validateChain_detects_tamper [OF m d] m d show ?thesis by blast
qed

text \<open>
  C5. Claim: \<open>validateChain\<close> on an untouched chain built by appends, of any length,
  resolves with an empty list. The code does so for the fresh chain and after one append;
  after two appends it reports the third block, whose previous hash is not the hash of
  the second.
\<close>

theorem validateChain_untouched_reports_link:
  "validateChain digest chain2 = Resolved [BlockRef block2]
   \<and> chain chain2 = [block0, block1, block2]
   \<and> validateChain digest chain0 = Resolved []
   \<and> validateChain digest chain1 = Resolved []"
proof -
  have "validateChain digest chain2 = Resolved [BlockRef block2]"
    by (simp add: validateChain_def truthy_object_def chain2_eq validate_block0 validate_block1
        validate_block2 Let_def)
       (simp add: block0_def block1_def block2_def)
  moreover have "validateChain digest chain0 = Resolved []"
    by (simp add: validateChain_def truthy_object_def chain0_eq validate_block0 Let_def)
       (simp add: block0_def)
  moreover have "validateChain digest chain1 = Resolved []"
    by (simp add: validateChain_def truthy_object_def chain1_eq validate_block0 validate_block1
        Let_def)
       (simp add: block0_def block1_def)
  ultimately show ?thesis by (simp add: chain2_eq)
qed

text \<open>
  C6. Claim: \<open>submitStar\<close> rejects with \<open>ExpiredChallenge\<close> exactly when five minutes or
  more have elapsed, with the distinct rejection \<open>InvalidSignature\<close> exactly when the
  window passes and the signature does not verify, and appends otherwise.
  Counterexample: a submission exactly five minutes after issuance for which the
  capability returns \<open>true\<close>, and a submission one second after issuance for which it
  returns \<open>false\<close>, are rejected with one and the same error.
\<close>

theorem submitStar_rejections_coincide:
  "time_elapsed 1700000300000 ''A:1700000000:starRegistry'' = Some 5
   \<and> verify_accept ''A:1700000000:starRegistry'' ''A'' ''sig'' = Some True
   \<and> fst (submitStar digest verify_accept 1700000300000 1700000300000 chain0
             ''A'' ''A:1700000000:starRegistry'' ''sig'' ''s1'')
       = Rejected ''Error submitting star! Elapsed time must be less than 5 minutes''
   \<and> less_than_5 (time_elapsed 1700000001000 ''A:1700000000:starRegistry'')
   \<and> verify_refuse ''A:1700000000:starRegistry'' ''A'' ''sig'' = Some False
   \<and> fst (submitStar digest verify_refuse 1700000001000 1700000001000 chain0
             ''A'' ''A:1700000000:starRegistry'' ''sig'' ''s1'')
       = Rejected ''Error submitting star! Elapsed time must be less than 5 minutes''"
  by (simp add: submitStar_def elapsed_300 elapsed_1 less_than_5_def verify_accept_def
      verify_refuse_def)

text \<open>
  C6, amended. On every state of a Blockchain object and for every call in which the
  signature-verification capability returns its verdict: when the elapsed time is less
  than five minutes and the verdict is \<open>true\<close>, \<open>submitStar\<close> appends a block with payload
  \<open>{star, owner}\<close>, stamped with the time of the append and sealed with its content hash,
  and resolves with that block; in every other case (five minutes or more elapsed, no
  readable timestamp, or the verdict \<open>false\<close>) it rejects with the single error
  "Error submitting star! Elapsed time must be less than 5 minutes" and leaves the chain
  as it was. The position and the link of the appended block are those that \<open>_addBlock\<close>
  assigns.
\<close>

theorem submitStar_outcome:
  "reachable H self \<Longrightarrow> verify message address signature = Some verified \<Longrightarrow>
   (less_than_5 (time_elapsed now message) \<and> verified \<longrightarrow>
      (\<exists>b. submitStar H verify now now' self address message signature star
              = (Resolved b, self\<lparr>chain := chain self @ [b], chain_height := 1\<rparr>)
            \<and> body b = DataStar star address
            \<and> time b = Some (time_string now')
            \<and> hash b = Some (computeContentHash H b)))
   \<and> (\<not> (less_than_5 (time_elapsed now message) \<and> verified) \<longrightarrow>
      submitStar H verify now now' self address message signature star
        = (Rejected ''Error submitting star! Elapsed time must be less than 5 minutes'', self))"
proof (intro conjI impI)
  assume r: "reachable H self"
    and v: "verify message address signature = Some verified"
    and ok: "less_than_5 (time_elapsed now message) \<and> verified"
  from addBlock_reachable [OF r, of now' "Block (DataStar star address)"]
  obtain b where b: "addBlock H now' self (Block (DataStar star address))
        = (Resolved b, self\<lparr>chain := chain self @ [b], chain_height := 1\<rparr>)"
      "body b = body (Block (DataStar star address))"
      "hash b = Some (H (b\<lparr>hash := hash (Block (DataStar star address))\<rparr>))"
    by blast
  from addBlock_resolved_time [OF b(1)] have t: "time b = Some (time_string now')" .
  show "\<exists>b. submitStar H verify now now' self address message signature star
              = (Resolved b, self\<lparr>chain := chain self @ [b], chain_height := 1\<rparr>)
            \<and> body b = DataStar star address
            \<and> time b = Some (time_string now')
            \<and> hash b = Some (computeContentHash H b)"
    using ok v b t
    by (intro exI [of _ b]) (simp add: submitStar_def Let_def Block_def computeContentHash_def)
next
  assume v: "verify message address signature = Some verified"
    and "\<not> (less_than_5 (time_elapsed now message) \<and> verified)"
  then show "submitStar H verify now now' self address message signature star
        = (Rejected ''Error submitting star! Elapsed time must be less than 5 minutes'', self)"
    by (auto simp: submitStar_def Let_def)
qed

text \<open>
  Witness for C6: on a new Blockchain, with a capability that returns \<open>true\<close>, a
  submission 299 seconds after issuance is appended, and one 300 seconds after issuance
  is rejected.
\<close>

theorem submitStar_outcome_witness:
  "reachable digest chain0
   \<and> verify_accept ''A:1700000000:starRegistry'' ''A'' ''sig'' = Some True
   \<and> less_than_5 (time_elapsed 1700000299999 ''A:1700000000:starRegistry'')
   \<and> (\<exists>b. submitStar digest verify_accept 1700000299999 1700000299999 chain0
              ''A'' ''A:1700000000:starRegistry'' ''sig'' ''s1''
            = (Resolved b, chain0\<lparr>chain := chain chain0 @ [b], chain_height := 1\<rparr>)
          \<and> body b = DataStar ''s1'' ''A''
          \<and> time b = Some (time_string 1700000299999)
          \<and> hash b = Some (computeContentHash digest b))
   \<and> \<not> less_than_5 (time_elapsed 1700000300000 ''A:1700000000:starRegistry'')
   \<and> submitStar digest verify_accept 1700000300000 1700000300000 chain0
        ''A'' ''A:1700000000:starRegistry'' ''sig'' ''s1''
      = (Rejected ''Error submitting star! Elapsed time must be less than 5 minutes'', chain0)"
proof -
  have w: "less_than_5 (time_elapsed 1700000299999 ''A:1700000000:starRegistry'')"
    by (simp add: elapsed_299 less_than_5_def)
  have v: "verify_accept ''A:1700000000:starRegistry'' ''A'' ''sig'' = Some True"
    by (simp add: verify_accept_def)
  have x: "\<not> less_than_5 (time_elapsed 1700000300000 ''A:1700000000:starRegistry'')"
    by (simp add: elapsed_300 less_than_5_def)
  from submitStar_outcome [where H = digest and self = chain0 and verify = verify_accept
      and message = "''A:1700000000:starRegistry''" and address = "''A''"
      and signature = "''sig''" and verified = True and now = 1700000299999 and now' = 1700000299999
      and star = "''s1''", OF reachable_chain0 v] w
  have a: "\<exists>b. submitStar digest verify_accept 1700000299999 1700000299999 chain0
              ''A'' ''A:1700000000:starRegistry'' ''sig'' ''s1''
            = (Resolved b, chain0\<lparr>chain := chain chain0 @ [b], chain_height := 1\<rparr>)
          \<and> body b = DataStar ''s1'' ''A''
          \<and> time b = Some (time_string 1700000299999)
          \<and> hash b = Some (computeContentHash digest b)"
    by blast
  from submitStar_outcome [where H = digest and self = chain0 and verify = verify_accept
      and message = "''A:1700000000:starRegistry''" and address = "''A''"
      and signature = "''sig''" and verified = True and now = 1700000300000 and now' = 1700000300000
      and star = "''s1''", OF reachable_chain0 v] x
  have b: "submitStar digest verify_accept 1700000300000 1700000300000 chain0
        ''A'' ''A:1700000000:starRegistry'' ''sig'' ''s1''
      = (Rejected ''Error submitting star! Elapsed time must be less than 5 minutes'', chain0)"
    by blast
  from reachable_chain0 w v a x b show ?thesis by blast
qed

text \<open>
  C7. For every identity, with the clock at one second past the epoch or later, issuing a
  challenge resolves with exactly \<open>identity:seconds:starRegistry\<close>, where \<open>seconds\<close> is
  the decimal numeral of the whole seconds of the clock reading, and the Blockchain object
  is left as it was.
\<close>

theorem challenge_format:
  "1000 \<le> now \<Longrightarrow>
   requestMessageOwnershipVerification now self address =
     (Resolved (address @ '':'' @ toString (now div 1000) @ '':starRegistry''), self)"
  by (simp add: requestMessageOwnershipVerification_def time_string_seconds)

text \<open>Witness for C7: identity \<open>A\<close> at 1700000000123 milliseconds.\<close>

theorem challenge_format_witness:
  "(1000 :: nat) \<le> 1700000000123
   \<and> requestMessageOwnershipVerification 1700000000123 chain0 ''A''
       = (Resolved ''A:1700000000:starRegistry'', chain0)"
proof -
  have h: "(1000 :: nat) \<le> 1700000000123" by simp
  from challenge_format [OF h, of chain0 "''A''"] h show ?thesis
    by (simp add: digit_char_def)
qed

text \<open>
  C8. For every chain and identity, \<open>getStarsByWalletAddress\<close> resolves with the decoded
  blocks of position greater than 0 whose owner is the identity, in chain order; the list
  is empty, and the promise still resolves, when none match.
\<close>

theorem getStarsByWalletAddress_filter:
  "getStarsByWalletAddress self address =
     Resolved (filter (\<lambda>r. owner_of (body r) = Some address)
                 (map getBData (filter (\<lambda>b. height b > 0) (chain self))))"
  by (simp add: getStarsByWalletAddress_def stars_loop_filter truthy_object_def)

text \<open>
  Witness for C8: on the chain holding stars owned by A, B, A, the stars of A are the two
  blocks of A in chain order, and the stars of an unknown identity are the empty list.
\<close>

theorem getStarsByWalletAddress_filter_witness:
  "getStarsByWalletAddress chain3 ''A'' = Resolved [block1, block3]
   \<and> getStarsByWalletAddress chain3 ''C'' = Resolved []"
proof -
  have a: "getStarsByWalletAddress chain3 ''A'' = Resolved [block1, block3]"
    unfolding getStarsByWalletAddress_filter [of chain3 "''A''"]
    by (simp add: chain3_eq getBData_def block0_def block1_def block2_def block3_def)
  have c: "getStarsByWalletAddress chain3 ''C'' = Resolved []"
    unfolding getStarsByWalletAddress_filter [of chain3 "''C''"]
    by (simp add: chain3_eq getBData_def block0_def block1_def block2_def block3_def)
  from a c show ?thesis by simp
qed

text \<open>
  C9. Claim: \<open>getBlockByHash\<close> returns the first block with that stored hash, and when no
  block matches its outcome is a normal result, not a raised error. Counterexample: no
  block of the chain after two appends has the hash \<open>00\<close>, and the promise is rejected
  with an error.
\<close>

theorem getBlockByHash_absent_rejects:
  "Some ''00'' \<notin> set (map hash (chain chain2))
   \<and> getBlockByHash chain2 ''00'' = Rejected ''Block not found!''"
  by (simp add: getBlockByHash_def js_index_def chain2_eq block0_def block1_def block2_def)

text \<open>
  C9, amended. \<open>getBlockByHash\<close> resolves with the first block in chain order whose
  stored hash equals the given one, and when no block matches it rejects with the error
  "Block not found!".
\<close>

theorem getBlockByHash_first:
  "(i < length (chain self) \<and> hash (chain self ! i) = Some h
      \<and> (\<forall>j<i. hash (chain self ! j) \<noteq> Some h)
     \<longrightarrow> getBlockByHash self h = Resolved (chain self ! i))
   \<and> ((\<forall>b \<in> set (chain self). hash b \<noteq> Some h)
     \<longrightarrow> getBlockByHash self h = Rejected ''Block not found!'')"
proof (intro conjI impI)
  assume a: "i < length (chain self) \<and> hash (chain self ! i) = Some h
      \<and> (\<forall>j<i. hash (chain self ! j) \<noteq> Some h)"
  then have "filter (\<lambda>b. hash b = Some h) (chain self)
     = chain self ! i # filter (\<lambda>b. hash b = Some h) (drop (Suc i) (chain self))"
    by (intro filter_first) auto
  then show "getBlockByHash self h = Resolved (chain self ! i)"
    by (simp add: getBlockByHash_def js_index_def)
next
  assume "\<forall>b \<in> set (chain self). hash b \<noteq> Some h"
  then have "filter (\<lambda>b. hash b = Some h) (chain self) = []"
    by (simp add: filter_empty_conv)
  then show "getBlockByHash self h = Rejected ''Block not found!''"
    by (simp add: getBlockByHash_def js_index_def)
qed

text \<open>
  Witness for C9: in the chain after two appends the hash of the second block is found at
  index 1, and the hash \<open>ff\<close> is found nowhere.
\<close>

theorem getBlockByHash_first_witness:
  "getBlockByHash chain2 ''null;1;s1,A;1700000010;null;0;Genesis Block;1700000000;null''
     = Resolved block1
   \<and> getBlockByHash chain2 ''ff'' = Rejected ''Block not found!''"
proof -
  let ?h = "''null;1;s1,A;1700000010;null;0;Genesis Block;1700000000;null''"
  have p: "1 < length (chain chain2) \<and> hash (chain chain2 ! 1) = Some ?h
      \<and> (\<forall>j<1. hash (chain chain2 ! j) \<noteq> Some ?h)"
    by (simp add: chain2_eq block0_def block1_def)
  have q: "\<forall>b \<in> set (chain chain2). hash b \<noteq> Some ''ff''"
    by (simp add: chain2_eq block0_def block1_def block2_def)
  from getBlockByHash_first [of 1 chain2 ?h] p
  have a: "getBlockByHash chain2 ?h = Resolved (chain chain2 ! 1)" by blast
  from getBlockByHash_first [of 0 chain2 "''ff''"] q
  have b: "getBlockByHash chain2 ''ff'' = Rejected ''Block not found!''" by blast
  from a b show ?thesis by (simp add: chain2_eq)
qed

text \<open>
  C10. In every state in which \<open>_addBlock\<close> is called, and for every block, the promise
  resolves: it is never rejected and never left pending, and the chain array grows by
  exactly one element.
\<close>

theorem addBlock_always_resolves:
  "reachable H self \<Longrightarrow>
     (\<exists>b. fst (addBlock H now self blk) = Resolved b)
     \<and> (\<forall>e. fst (addBlock H now self blk) \<noteq> Rejected e)
     \<and> fst (addBlock H now self blk) \<noteq> Pending
     \<and> length (chain (snd (addBlock H now self blk))) = length (chain self) + 1"
  using addBlock_reachable [of H self now blk] by auto

text \<open>Witness for C10: an append to the chain that holds the genesis block and one star.\<close>

theorem addBlock_always_resolves_witness:
  "reachable digest chain1
   \<and> (\<exists>b. fst (addBlock digest 1700000020000 chain1 (Block (DataStar ''s2'' ''B''))) = Resolved b)
   \<and> length (chain (snd (addBlock digest 1700000020000 chain1 (Block (DataStar ''s2'' ''B'')))))
       = length (chain chain1) + 1"
  using addBlock_always_resolves [OF reachable_chain1, of 1700000020000 "Block (DataStar ''s2'' ''B'')"]
    reachable_chain1
  by blast

end
